theory Spec2Isabelle
  imports Main
begin

section \<open>Data model (models.py, schemas.py)\<close>

text \<open>
  Amounts. A request carries its amount as a Python \<open>float\<close>, which each handler converts
  at once with \<open>Decimal(str(amount))\<close>; the tables keep amounts in \<open>Numeric(19, 4)\<close>
  columns, and \<open>calculate_account_balance\<close> adds and subtracts them as \<open>Decimal\<close>. An
  amount is represented here by the integer number of ten-thousandths it stands for, so
  that addition, subtraction and comparison are exact, as they are for \<open>Decimal\<close>. Amounts
  with more than four decimal places, and the widths of the columns (\<open>String(n)\<close>, the 19
  digits of \<open>Numeric\<close>), belong to the storage engine and are outside this model; the
  constraints that \<open>models.py\<close> declares on \<open>ledger_entry\<close> (the check \<open>amount > 0\<close>, the
  foreign keys) are part of it.

  Identifiers are Python integers. The \<open>created_at\<close> / \<open>updated_at\<close> columns play no part in
  any operation and are left out. Field names carry the initial of their table, since
  several tables share names such as \<open>id\<close>, \<open>amount\<close> and \<open>currency\<close>.
\<close>

record account =
  a_id :: int
  a_user_id :: string
  a_account_type :: string
  a_currency :: string
  a_status :: string

record transaction =
  t_id :: int
  t_type :: string
  t_status :: string
  t_amount :: int
  t_currency :: string
  t_description :: "string option"

record ledger_entry =
  e_id :: int
  e_transaction_id :: int
  e_account_id :: int
  e_entry_type :: string
  e_amount :: int

text \<open>The three tables of the database; rows are kept in insertion order.\<close>

record database =
  accounts :: "account list"
  transactions :: "transaction list"
  ledger_entries :: "ledger_entry list"

text \<open>
  Request bodies: \<open>schemas.AccountCreate\<close> (its field \<open>currency\<close> is \<open>currency_ac\<close> here) and
  \<open>schemas.TransferCreate\<close>, which the three transaction endpoints share.
\<close>

record account_create =
  user_id :: string
  account_type :: string
  currency_ac :: string

record transfer_create =
  source_account_id :: int
  destination_account_id :: int
  amount :: int
  currency :: string
  description :: "string option"

text \<open>
  The status codes the handlers raise through \<open>HTTPException\<close>. In the vocabulary of the
  specification: 404 is NotFound, 400 is CurrencyMismatch, 403 is InsufficientFunds,
  409 is DuplicateAccount, 500 is Internal; 422 is the answer of the framework to a body
  that fails schema validation.
\<close>

datatype status =
    HTTP_400_BAD_REQUEST
  | HTTP_403_FORBIDDEN
  | HTTP_404_NOT_FOUND
  | HTTP_409_CONFLICT
  | HTTP_422_UNPROCESSABLE_ENTITY
  | HTTP_500_INTERNAL_SERVER_ERROR

text \<open>
  What can be raised inside a handler: an \<open>HTTPException\<close> with its status code, or the
  \<open>IntegrityError\<close> of the database when an inserted row violates a declared constraint.
\<close>

datatype exn = HTTPException status | IntegrityError

section \<open>The session (database.py)\<close>

text \<open>
  A session works on the rows its database transaction sees (\<open>tables\<close>), holds the objects
  handed to \<open>db.add\<close> / \<open>db.add_all\<close> that are not flushed yet (\<open>pending\<close>; the session is
  made with \<open>autoflush=False\<close>), and has taken row locks with \<open>with_for_update\<close>. The field
  \<open>locked\<close> records the identifiers of the account rows locked, in the order of acquisition.
\<close>

record session =
  tables :: database
  pending :: "ledger_entry list"
  locked :: "int list"

definition SessionLocal :: "database \<Rightarrow> session" where
  "SessionLocal d = \<lparr>tables = d, pending = [], locked = []\<rparr>"

text \<open>An autoincrement primary key: a value larger than every key of the table.\<close>

definition next_id :: "int list \<Rightarrow> int" where
  "next_id ids = fold max ids 0 + 1"

text \<open>
  \<open>db.query(models.Account).filter(models.Account.id == i).with_for_update().first()\<close>:
  the first row with that identifier, which is locked when there is one.
\<close>

definition query_account_for_update :: "int \<Rightarrow> session \<Rightarrow> account option \<times> session" where
  "query_account_for_update i s =
     (case find (\<lambda>a. a_id a = i) (accounts (tables s)) of
        None \<Rightarrow> (None, s)
      | Some a \<Rightarrow> (Some a, s\<lparr>locked := locked s @ [i]\<rparr>))"

text \<open>
  \<open>db.add(new_transaction); db.flush()\<close>: the row is inserted at once and receives its
  identifier.
\<close>

definition add_flush_transaction :: "transaction \<Rightarrow> session \<Rightarrow> transaction \<times> session" where
  "add_flush_transaction t s =
     (let d = tables s;
          new_transaction = t\<lparr>t_id := next_id (map t_id (transactions d))\<rparr>
      in (new_transaction, s\<lparr>tables := d\<lparr>transactions := transactions d @ [new_transaction]\<rparr>\<rparr>))"

text \<open>\<open>db.add(entry)\<close> and \<open>db.add_all(entries)\<close>: the objects wait for the next flush.\<close>

definition add_all :: "ledger_entry list \<Rightarrow> session \<Rightarrow> session" where
  "add_all es s = s\<lparr>pending := pending s @ es\<rparr>"

text \<open>
  The flush of pending ledger entries, one INSERT each, in the order they were added. The
  table \<open>ledger_entry\<close> declares \<open>CheckConstraint('amount > 0')\<close> and foreign keys to
  \<open>transaction.id\<close> and \<open>account.id\<close>; a row that violates one raises \<open>IntegrityError\<close>.
\<close>

fun insert_entries :: "ledger_entry list \<Rightarrow> database \<Rightarrow> exn + database" where
  "insert_entries [] d = Inr d"
| "insert_entries (e # es) d =
     (if \<not> 0 < e_amount e then Inl IntegrityError
      else if e_transaction_id e \<notin> set (map t_id (transactions d)) then Inl IntegrityError
      else if e_account_id e \<notin> set (map a_id (accounts d)) then Inl IntegrityError
      else insert_entries es
             (d\<lparr>ledger_entries :=
                  ledger_entries d @ [e\<lparr>e_id := next_id (map e_id (ledger_entries d))\<rparr>]\<rparr>))"

text \<open>
  \<open>with db.begin(): body\<close>. When the body raises, the database transaction is rolled back
  and the exception goes on; when it returns, the session commits: the pending objects
  are flushed, and a failing flush rolls back and raises. After a rollback the tables are
  those from before the block.
\<close>

definition db_begin :: "(session \<Rightarrow> (exn + 'a) \<times> session) \<Rightarrow> session \<Rightarrow> (exn + 'a) \<times> session" where
  "db_begin body s0 =
     (case body s0 of
        (Inl e, s) \<Rightarrow> (Inl e, s\<lparr>tables := tables s0, pending := []\<rparr>)
      | (Inr r, s) \<Rightarrow>
          (case insert_entries (pending s) (tables s) of
             Inl e \<Rightarrow> (Inl e, s\<lparr>tables := tables s0, pending := []\<rparr>)
           | Inr d \<Rightarrow> (Inr r, s\<lparr>tables := d, pending := []\<rparr>)))"

section \<open>Helper functions (main.py)\<close>

text \<open>
  The loop of \<open>calculate_account_balance\<close> over the entries of the account, with the
  running \<open>balance\<close>; an entry whose type is neither 'credit' nor 'debit' is passed over.
\<close>

fun balance_loop :: "ledger_entry list \<Rightarrow> int \<Rightarrow> int" where
  "balance_loop [] balance = balance"
| "balance_loop (entry # entries) balance =
     (if e_entry_type entry = ''credit'' then balance_loop entries (balance + e_amount entry)
      else if e_entry_type entry = ''debit'' then balance_loop entries (balance - e_amount entry)
      else balance_loop entries balance)"

definition calculate_account_balance :: "session \<Rightarrow> int \<Rightarrow> int" where
  "calculate_account_balance db account_id =
     (let entries = filter (\<lambda>e. e_account_id e = account_id) (ledger_entries (tables db))
      in balance_loop entries 0)"

text \<open>
  \<open>create_new_account_in_db\<close>: the look-up of an account of the same user and currency,
  then \<open>db.add\<close> and \<open>db.commit\<close>. The row gets its identifier and the default status
  'active' at the insert; the table \<open>account\<close> declares the check \<open>LENGTH(currency) = 3\<close>.
\<close>

definition create_new_account_in_db :: "session \<Rightarrow> account_create \<Rightarrow> (exn + account) \<times> session" where
  "create_new_account_in_db db account =
     (let d = tables db;
          existing_account =
            find (\<lambda>a. a_user_id a = user_id account \<and> a_currency a = currency_ac account) (accounts d)
      in case existing_account of
           Some _ \<Rightarrow> (Inl (HTTPException HTTP_409_CONFLICT), db)
         | None \<Rightarrow>
             (let db_account =
                    \<lparr>a_id = next_id (map a_id (accounts d)), a_user_id = user_id account,
                     a_account_type = account_type account, a_currency = currency_ac account,
                     a_status = ''active''\<rparr>
              in if length (a_currency db_account) \<noteq> 3 then (Inl IntegrityError, db)
                 else (Inr db_account, db\<lparr>tables := d\<lparr>accounts := accounts d @ [db_account]\<rparr>\<rparr>)))"

section \<open>Account endpoint (main.py)\<close>

text \<open>
  \<open>create_account\<close> lets an exception of \<open>create_new_account_in_db\<close> through; the
  framework answers an exception that is no \<open>HTTPException\<close> with status 500.
\<close>

definition create_account :: "account_create \<Rightarrow> session \<Rightarrow> (status + account) \<times> session" where
  "create_account account db =
     (case create_new_account_in_db db account of
        (Inl (HTTPException e), db') \<Rightarrow> (Inl e, db')
      | (Inl IntegrityError, db') \<Rightarrow> (Inl HTTP_500_INTERNAL_SERVER_ERROR, db')
      | (Inr new_account, db') \<Rightarrow> (Inr new_account, db'))"

section \<open>Transaction endpoints (main.py)\<close>

text \<open>
  For each handler, the block under \<open>with db.begin():\<close> comes first, then the handler
  with its \<open>try\<close> / \<open>except\<close>. A row that is not inserted yet has no identifier; the
  placeholder is 0 until the insert assigns one. \<open>db.refresh\<close> and the conversion of the
  returned amount to \<open>float\<close> only shape the response and are not modelled.
\<close>

definition create_transfer_body :: "transfer_create \<Rightarrow> session \<Rightarrow> (exn + transaction) \<times> session" where
  "create_transfer_body transfer db =
     (let source_id = source_account_id transfer;
          dest_id = destination_account_id transfer;
          transfer_amount = amount transfer;
          (source_account, db1) = query_account_for_update source_id db;
          (dest_account, db2) = query_account_for_update dest_id db1
      in case source_account of
           None \<Rightarrow> (Inl (HTTPException HTTP_404_NOT_FOUND), db2)
         | Some src \<Rightarrow>
        (case dest_account of
           None \<Rightarrow> (Inl (HTTPException HTTP_404_NOT_FOUND), db2)
         | Some dst \<Rightarrow>
             if a_currency src \<noteq> currency transfer \<or> a_currency dst \<noteq> currency transfer
             then (Inl (HTTPException HTTP_400_BAD_REQUEST), db2)
             else
               (let current_source_balance = calculate_account_balance db2 source_id
                in if current_source_balance < transfer_amount
                   then (Inl (HTTPException HTTP_403_FORBIDDEN), db2)
                   else
                     (let (new_transaction, db3) =
                            add_flush_transaction
                              \<lparr>t_id = 0, t_type = ''transfer'', t_status = ''completed'',
                               t_amount = transfer_amount, t_currency = currency transfer,
                               t_description = description transfer\<rparr> db2;
                          debit_entry =
                            \<lparr>e_id = 0, e_transaction_id = t_id new_transaction,
                             e_account_id = source_id, e_entry_type = ''debit'',
                             e_amount = transfer_amount\<rparr>;
                          credit_entry =
                            \<lparr>e_id = 0, e_transaction_id = t_id new_transaction,
                             e_account_id = dest_id, e_entry_type = ''credit'',
                             e_amount = transfer_amount\<rparr>;
                          db4 = add_all [debit_entry, credit_entry] db3
                      in (Inr new_transaction, db4)))))"

text \<open>
  \<open>except HTTPException as e: raise e\<close> hands the status on; \<open>except Exception\<close> calls
  \<open>db.rollback()\<close>, which finds the transaction already rolled back by the \<open>with\<close> block,
  and raises status 500.
\<close>

definition handle :: "(exn + 'a) \<times> session \<Rightarrow> (status + 'a) \<times> session" where
  "handle r =
     (case r of
        (Inl (HTTPException e), db) \<Rightarrow> (Inl e, db)
      | (Inl IntegrityError, db) \<Rightarrow> (Inl HTTP_500_INTERNAL_SERVER_ERROR, db)
      | (Inr x, db) \<Rightarrow> (Inr x, db))"

definition create_transfer :: "transfer_create \<Rightarrow> session \<Rightarrow> (status + transaction) \<times> session" where
  "create_transfer transfer db = handle (db_begin (create_transfer_body transfer) db)"

definition create_deposit_body :: "transfer_create \<Rightarrow> session \<Rightarrow> (exn + transaction) \<times> session" where
  "create_deposit_body deposit db =
     (let dest_id = destination_account_id deposit;
          deposit_amount = amount deposit;
          (dest_account, db1) = query_account_for_update dest_id db
      in case dest_account of
           None \<Rightarrow> (Inl (HTTPException HTTP_404_NOT_FOUND), db1)
         | Some dst \<Rightarrow>
             (let (new_transaction, db2) =
                    add_flush_transaction
                      \<lparr>t_id = 0, t_type = ''deposit'', t_status = ''completed'',
                       t_amount = deposit_amount, t_currency = currency deposit,
                       t_description = description deposit\<rparr> db1;
                  credit_entry =
                    \<lparr>e_id = 0, e_transaction_id = t_id new_transaction,
                     e_account_id = dest_id, e_entry_type = ''credit'',
                     e_amount = deposit_amount\<rparr>;
                  db3 = add_all [credit_entry] db2
              in (Inr new_transaction, db3)))"

definition create_deposit :: "transfer_create \<Rightarrow> session \<Rightarrow> (status + transaction) \<times> session" where
  "create_deposit deposit db = handle (db_begin (create_deposit_body deposit) db)"

definition create_withdrawal_body :: "transfer_create \<Rightarrow> session \<Rightarrow> (exn + transaction) \<times> session" where
  "create_withdrawal_body withdrawal db =
     (let source_id = source_account_id withdrawal;
          withdrawal_amount = amount withdrawal;
          (source_account, db1) = query_account_for_update source_id db
      in case source_account of
           None \<Rightarrow> (Inl (HTTPException HTTP_404_NOT_FOUND), db1)
         | Some src \<Rightarrow>
             (let current_source_balance = calculate_account_balance db1 source_id
              in if current_source_balance < withdrawal_amount
                 then (Inl (HTTPException HTTP_403_FORBIDDEN), db1)
                 else
                   (let (new_transaction, db2) =
                          add_flush_transaction
                            \<lparr>t_id = 0, t_type = ''withdrawal'', t_status = ''completed'',
                             t_amount = withdrawal_amount, t_currency = currency withdrawal,
                             t_description = description withdrawal\<rparr> db1;
                        debit_entry =
                          \<lparr>e_id = 0, e_transaction_id = t_id new_transaction,
                           e_account_id = source_id, e_entry_type = ''debit'',
                           e_amount = withdrawal_amount\<rparr>;
                        db3 = add_all [debit_entry] db2
                    in (Inr new_transaction, db3))))"

definition create_withdrawal :: "transfer_create \<Rightarrow> session \<Rightarrow> (status + transaction) \<times> session" where
  "create_withdrawal withdrawal db = handle (db_begin (create_withdrawal_body withdrawal) db)"

section \<open>Requests as the framework delivers them\<close>

text \<open>
  The framework validates the body against the schema before it calls the handler and
  answers 422 otherwise: \<open>amount: float = Field(..., gt=0)\<close> and
  \<open>currency: str = Field(..., max_length=3)\<close> for \<open>TransferCreate\<close>; the three
  \<open>max_length\<close> bounds for \<open>AccountCreate\<close>. Each request runs on a session of its own
  (\<open>get_db\<close>).
\<close>

definition TransferCreate_valid :: "transfer_create \<Rightarrow> bool" where
  "TransferCreate_valid r \<longleftrightarrow> 0 < amount r \<and> length (currency r) \<le> 3"

definition AccountCreate_valid :: "account_create \<Rightarrow> bool" where
  "AccountCreate_valid r \<longleftrightarrow>
     length (user_id r) \<le> 50 \<and> length (account_type r) \<le> 20 \<and> length (currency_ac r) \<le> 3"

definition post_accounts :: "account_create \<Rightarrow> database \<Rightarrow> (status + account) \<times> session" where
  "post_accounts r d =
     (if AccountCreate_valid r then create_account r (SessionLocal d)
      else (Inl HTTP_422_UNPROCESSABLE_ENTITY, SessionLocal d))"

definition post_transfers :: "transfer_create \<Rightarrow> database \<Rightarrow> (status + transaction) \<times> session" where
  "post_transfers r d =
     (if TransferCreate_valid r then create_transfer r (SessionLocal d)
      else (Inl HTTP_422_UNPROCESSABLE_ENTITY, SessionLocal d))"

definition post_deposits :: "transfer_create \<Rightarrow> database \<Rightarrow> (status + transaction) \<times> session" where
  "post_deposits r d =
     (if TransferCreate_valid r then create_deposit r (SessionLocal d)
      else (Inl HTTP_422_UNPROCESSABLE_ENTITY, SessionLocal d))"

definition post_withdrawals :: "transfer_create \<Rightarrow> database \<Rightarrow> (status + transaction) \<times> session" where
  "post_withdrawals r d =
     (if TransferCreate_valid r then create_withdrawal r (SessionLocal d)
      else (Inl HTTP_422_UNPROCESSABLE_ENTITY, SessionLocal d))"

text \<open>A sequence of requests served one after the other; each leaves the tables to the next.\<close>

datatype request =
    POST_accounts account_create
  | POST_transfers transfer_create
  | POST_deposits transfer_create
  | POST_withdrawals transfer_create

fun serve :: "request \<Rightarrow> database \<Rightarrow> database" where
  "serve (POST_accounts r) d = tables (snd (post_accounts r d))"
| "serve (POST_transfers r) d = tables (snd (post_transfers r d))"
| "serve (POST_deposits r) d = tables (snd (post_deposits r d))"
| "serve (POST_withdrawals r) d = tables (snd (post_withdrawals r d))"

fun run :: "request list \<Rightarrow> database \<Rightarrow> database" where
  "run [] d = d"
| "run (r # rs) d = run rs (serve r d)"

definition empty_database :: database where
  "empty_database = \<lparr>accounts = [], transactions = [], ledger_entries = []\<rparr>"

text \<open>The derived balance of an account in a state of the tables.\<close>

definition balance_of :: "database \<Rightarrow> int \<Rightarrow> int" where
  "balance_of d account_id = calculate_account_balance (SessionLocal d) account_id"

section \<open>Vocabulary of the specification\<close>

text \<open>
  The balance as the specification words it: the sum of the amounts of the credit entries
  that reference the account, minus the sum of the amounts of its debit entries.
\<close>

definition credit_sum :: "database \<Rightarrow> int \<Rightarrow> int" where
  "credit_sum d account_id =
     sum_list (map e_amount
       (filter (\<lambda>e. e_account_id e = account_id \<and> e_entry_type e = ''credit'') (ledger_entries d)))"

definition debit_sum :: "database \<Rightarrow> int \<Rightarrow> int" where
  "debit_sum d account_id =
     sum_list (map e_amount
       (filter (\<lambda>e. e_account_id e = account_id \<and> e_entry_type e = ''debit'') (ledger_entries d)))"





text \<open>The account row with a given identifier, as the handlers look it up.\<close>

definition lookup_account :: "database \<Rightarrow> int \<Rightarrow> account option" where
  "lookup_account d i = find (\<lambda>a. a_id a = i) (accounts d)"

text \<open>The rows a successful handler writes, with the identifiers the inserts assign.\<close>

definition new_transaction_row :: "database \<Rightarrow> string \<Rightarrow> transfer_create \<Rightarrow> transaction" where
  "new_transaction_row d ty r =
     \<lparr>t_id = next_id (map t_id (transactions d)), t_type = ty, t_status = ''completed'',
      t_amount = amount r, t_currency = currency r, t_description = description r\<rparr>"

definition new_entry_row :: "int \<Rightarrow> int \<Rightarrow> int \<Rightarrow> string \<Rightarrow> int \<Rightarrow> ledger_entry" where
  "new_entry_row i tid acc ty amt =
     \<lparr>e_id = i, e_transaction_id = tid, e_account_id = acc, e_entry_type = ty, e_amount = amt\<rparr>"

section \<open>A small ledger for concrete checks\<close>

text \<open>
  Two accounts in USD and one in EUR, after a deposit of 100 into account 1 and a transfer
  of 40 from account 1 to account 2; the state is the one that five requests produce
  from the empty database (lemma \<open>example_ledger_reachable\<close>).
\<close>

definition example_ledger :: database where
  "example_ledger =
     \<lparr>accounts =
        [\<lparr>a_id = 1, a_user_id = ''U1'', a_account_type = ''checking'', a_currency = ''USD'',
          a_status = ''active''\<rparr>,
         \<lparr>a_id = 2, a_user_id = ''U2'', a_account_type = ''checking'', a_currency = ''USD'',
          a_status = ''active''\<rparr>,
         \<lparr>a_id = 3, a_user_id = ''U3'', a_account_type = ''savings'', a_currency = ''EUR'',
          a_status = ''active''\<rparr>],
      transactions =
        [\<lparr>t_id = 1, t_type = ''deposit'', t_status = ''completed'', t_amount = 100,
          t_currency = ''USD'', t_description = None\<rparr>,
         \<lparr>t_id = 2, t_type = ''transfer'', t_status = ''completed'', t_amount = 40,
          t_currency = ''USD'', t_description = None\<rparr>],
      ledger_entries =
        [\<lparr>e_id = 1, e_transaction_id = 1, e_account_id = 1, e_entry_type = ''credit'',
          e_amount = 100\<rparr>,
         \<lparr>e_id = 2, e_transaction_id = 2, e_account_id = 1, e_entry_type = ''debit'',
          e_amount = 40\<rparr>,
         \<lparr>e_id = 3, e_transaction_id = 2, e_account_id = 2, e_entry_type = ''credit'',
          e_amount = 40\<rparr>]\<rparr>"

definition example_account :: "string \<Rightarrow> string \<Rightarrow> string \<Rightarrow> account_create" where
  "example_account u ty c = \<lparr>user_id = u, account_type = ty, currency_ac = c\<rparr>"

definition example_request :: "int \<Rightarrow> int \<Rightarrow> int \<Rightarrow> string \<Rightarrow> transfer_create" where
  "example_request src dst amt c =
     \<lparr>source_account_id = src, destination_account_id = dst, amount = amt, currency = c,
      description = None\<rparr>"

section \<open>Basic facts\<close>

lemma balance_loop_sum:
  "balance_loop es b =
     b + sum_list (map e_amount (filter (\<lambda>e. e_entry_type e = ''credit'') es))
       - sum_list (map e_amount (filter (\<lambda>e. e_entry_type e = ''debit'') es))"
  by (induction es arbitrary: b) simp_all

lemma balance_credit_debit:
  "calculate_account_balance db a = credit_sum (tables db) a - debit_sum (tables db) a"
  by (simp add: calculate_account_balance_def credit_sum_def debit_sum_def balance_loop_sum conj_commute)

lemma balance_of_credit_debit: "balance_of d a = credit_sum d a - debit_sum d a"
  by (simp add: balance_of_def balance_credit_debit SessionLocal_def)

lemma find_account_None: "find (\<lambda>a. a_id a = i) xs = None \<longleftrightarrow> i \<notin> a_id ` set xs"
  by (auto simp: find_None_iff)

lemma find_account_Some: "find (\<lambda>a. a_id a = i) xs = Some a \<Longrightarrow> i \<in> a_id ` set xs"
  by (auto simp: find_Some_iff)

lemma SessionLocal_simps:
  "tables (SessionLocal d) = d" "pending (SessionLocal d) = []" "locked (SessionLocal d) = []"
  by (simp_all add: SessionLocal_def)

lemma create_transfer_result:
  "create_transfer r (SessionLocal d) =
     (case lookup_account d (source_account_id r) of
        None \<Rightarrow>
          (case lookup_account d (destination_account_id r) of
             None \<Rightarrow> (Inl HTTP_404_NOT_FOUND, \<lparr>tables = d, pending = [], locked = []\<rparr>)
           | Some dst \<Rightarrow>
               (Inl HTTP_404_NOT_FOUND,
                \<lparr>tables = d, pending = [], locked = [destination_account_id r]\<rparr>))
      | Some src \<Rightarrow>
          (case lookup_account d (destination_account_id r) of
             None \<Rightarrow>
               (Inl HTTP_404_NOT_FOUND,
                \<lparr>tables = d, pending = [], locked = [source_account_id r]\<rparr>)
           | Some dst \<Rightarrow>
               (let s = \<lparr>tables = d, pending = [],
                         locked = [source_account_id r, destination_account_id r]\<rparr>
                in if a_currency src \<noteq> currency r \<or> a_currency dst \<noteq> currency r
                   then (Inl HTTP_400_BAD_REQUEST, s)
                   else if balance_of d (source_account_id r) < amount r
                   then (Inl HTTP_403_FORBIDDEN, s)
                   else if \<not> 0 < amount r then (Inl HTTP_500_INTERNAL_SERVER_ERROR, s)
                   else
                     (let t = new_transaction_row d ''transfer'' r;
                          n = next_id (map e_id (ledger_entries d))
                      in (Inr t,
                          s\<lparr>tables := d\<lparr>transactions := transactions d @ [t],
                                ledger_entries := ledger_entries d @
                                  [new_entry_row n (t_id t) (source_account_id r) ''debit'' (amount r),
                                   new_entry_row (next_id (map e_id (ledger_entries d) @ [n])) (t_id t)
                                     (destination_account_id r) ''credit'' (amount r)]\<rparr>\<rparr>)))))"
  by (auto simp: create_transfer_def handle_def db_begin_def create_transfer_body_def
      query_account_for_update_def SessionLocal_def add_flush_transaction_def add_all_def
      balance_of_def calculate_account_balance_def new_transaction_row_def new_entry_row_def
      lookup_account_def Let_def find_account_None
      dest: find_account_Some split: option.splits)

lemma create_deposit_result:
  "create_deposit r (SessionLocal d) =
     (case lookup_account d (destination_account_id r) of
        None \<Rightarrow> (Inl HTTP_404_NOT_FOUND, \<lparr>tables = d, pending = [], locked = []\<rparr>)
      | Some dst \<Rightarrow>
          (let s = \<lparr>tables = d, pending = [], locked = [destination_account_id r]\<rparr>
           in if \<not> 0 < amount r then (Inl HTTP_500_INTERNAL_SERVER_ERROR, s)
              else
                (let t = new_transaction_row d ''deposit'' r
                 in (Inr t,
                     s\<lparr>tables := d\<lparr>transactions := transactions d @ [t],
                           ledger_entries := ledger_entries d @
                             [new_entry_row (next_id (map e_id (ledger_entries d))) (t_id t)
                                (destination_account_id r) ''credit'' (amount r)]\<rparr>\<rparr>))))"
  by (auto simp: create_deposit_def handle_def db_begin_def create_deposit_body_def
      query_account_for_update_def SessionLocal_def add_flush_transaction_def add_all_def
      new_transaction_row_def new_entry_row_def lookup_account_def Let_def find_account_None
      dest: find_account_Some split: option.splits)

lemma create_withdrawal_result:
  "create_withdrawal r (SessionLocal d) =
     (case lookup_account d (source_account_id r) of
        None \<Rightarrow> (Inl HTTP_404_NOT_FOUND, \<lparr>tables = d, pending = [], locked = []\<rparr>)
      | Some src \<Rightarrow>
          (let s = \<lparr>tables = d, pending = [], locked = [source_account_id r]\<rparr>
           in if balance_of d (source_account_id r) < amount r
              then (Inl HTTP_403_FORBIDDEN, s)
              else if \<not> 0 < amount r then (Inl HTTP_500_INTERNAL_SERVER_ERROR, s)
              else
                (let t = new_transaction_row d ''withdrawal'' r
                 in (Inr t,
                     s\<lparr>tables := d\<lparr>transactions := transactions d @ [t],
                           ledger_entries := ledger_entries d @
                             [new_entry_row (next_id (map e_id (ledger_entries d))) (t_id t)
                                (source_account_id r) ''debit'' (amount r)]\<rparr>\<rparr>))))"
  by (auto simp: create_withdrawal_def handle_def db_begin_def create_withdrawal_body_def
      query_account_for_update_def SessionLocal_def add_flush_transaction_def add_all_def
      balance_of_def calculate_account_balance_def
      new_transaction_row_def new_entry_row_def lookup_account_def Let_def find_account_None
      dest: find_account_Some split: option.splits)

lemma create_account_tables:
  "ledger_entries (tables (snd (create_account r (SessionLocal d)))) = ledger_entries d
   \<and> transactions (tables (snd (create_account r (SessionLocal d)))) = transactions d"
  by (auto simp: create_account_def create_new_account_in_db_def SessionLocal_def Let_def
      split: option.splits)

lemma create_account_result:
  "create_account r (SessionLocal d) =
     (case find (\<lambda>a. a_user_id a = user_id r \<and> a_currency a = currency_ac r) (accounts d) of
        Some _ \<Rightarrow> (Inl HTTP_409_CONFLICT, SessionLocal d)
      | None \<Rightarrow>
          if length (currency_ac r) \<noteq> 3 then (Inl HTTP_500_INTERNAL_SERVER_ERROR, SessionLocal d)
          else
            (let db_account =
                   \<lparr>a_id = next_id (map a_id (accounts d)), a_user_id = user_id r,
                    a_account_type = account_type r, a_currency = currency_ac r,
                    a_status = ''active''\<rparr>
             in (Inr db_account, SessionLocal (d\<lparr>accounts := accounts d @ [db_account]\<rparr>))))"
  by (simp add: create_account_def create_new_account_in_db_def SessionLocal_def Let_def
      split: option.splits)

lemma example_ledger_reachable:
  "run [POST_accounts (example_account ''U1'' ''checking'' ''USD''),
        POST_accounts (example_account ''U2'' ''checking'' ''USD''),
        POST_accounts (example_account ''U3'' ''savings'' ''EUR''),
        POST_deposits (example_request 0 1 100 ''USD''),
        POST_transfers (example_request 1 2 40 ''USD'')] empty_database = example_ledger"
  by (simp add: post_accounts_def post_deposits_def post_transfers_def
      AccountCreate_valid_def TransferCreate_valid_def
      create_account_result create_deposit_result create_transfer_result lookup_account_def
      balance_of_credit_debit credit_sum_def debit_sum_def
      example_account_def example_request_def empty_database_def example_ledger_def
      next_id_def new_transaction_row_def new_entry_row_def Let_def SessionLocal_simps)

lemma example_ledger_lookup:
  "lookup_account example_ledger 1 =
     Some \<lparr>a_id = 1, a_user_id = ''U1'', a_account_type = ''checking'', a_currency = ''USD'',
           a_status = ''active''\<rparr>"
  "lookup_account example_ledger 2 =
     Some \<lparr>a_id = 2, a_user_id = ''U2'', a_account_type = ''checking'', a_currency = ''USD'',
           a_status = ''active''\<rparr>"
  "lookup_account example_ledger 3 =
     Some \<lparr>a_id = 3, a_user_id = ''U3'', a_account_type = ''savings'', a_currency = ''EUR'',
           a_status = ''active''\<rparr>"
  "lookup_account example_ledger 77 = None"
  by (simp_all add: lookup_account_def example_ledger_def)

lemma example_ledger_balance:
  "balance_of example_ledger 1 = 60" "balance_of example_ledger 2 = 40"
  "balance_of example_ledger 3 = 0"
  by (simp_all add: balance_of_credit_debit credit_sum_def debit_sum_def example_ledger_def)

lemma create_transfer_failure:
  "fst (create_transfer r (SessionLocal d)) = Inl e \<Longrightarrow>
     tables (snd (create_transfer r (SessionLocal d))) = d
     \<and> pending (snd (create_transfer r (SessionLocal d))) = []"
  by (auto simp: create_transfer_result Let_def split: option.splits if_splits)

lemma create_deposit_failure:
  "fst (create_deposit r (SessionLocal d)) = Inl e \<Longrightarrow>
     tables (snd (create_deposit r (SessionLocal d))) = d
     \<and> pending (snd (create_deposit r (SessionLocal d))) = []"
  by (auto simp: create_deposit_result Let_def split: option.splits if_splits)

lemma create_withdrawal_failure:
  "fst (create_withdrawal r (SessionLocal d)) = Inl e \<Longrightarrow>
     tables (snd (create_withdrawal r (SessionLocal d))) = d
     \<and> pending (snd (create_withdrawal r (SessionLocal d))) = []"
  by (auto simp: create_withdrawal_result Let_def split: option.splits if_splits)

section \<open>Invariants of request sequences\<close>


lemma serve_transactions_positive:
  "\<forall>t \<in> set (transactions d). 0 < t_amount t \<Longrightarrow>
   \<forall>t \<in> set (transactions (serve rq d)). 0 < t_amount t"
proof (cases rq)
  case (POST_accounts r)
  then show "\<forall>t \<in> set (transactions d). 0 < t_amount t \<Longrightarrow> ?thesis"
    by (simp add: post_accounts_def create_account_tables SessionLocal_simps)
next
  case (POST_transfers r)
  then show "\<forall>t \<in> set (transactions d). 0 < t_amount t \<Longrightarrow> ?thesis"
    by (auto simp: post_transfers_def create_transfer_result SessionLocal_simps
        new_transaction_row_def Let_def split: option.splits)
next
  case (POST_deposits r)
  then show "\<forall>t \<in> set (transactions d). 0 < t_amount t \<Longrightarrow> ?thesis"
    by (auto simp: post_deposits_def create_deposit_result SessionLocal_simps
        new_transaction_row_def Let_def split: option.splits)
next
  case (POST_withdrawals r)
  then show "\<forall>t \<in> set (transactions d). 0 < t_amount t \<Longrightarrow> ?thesis"
    by (auto simp: post_withdrawals_def create_withdrawal_result SessionLocal_simps
        new_transaction_row_def Let_def split: option.splits)
qed

lemma run_transactions_positive:
  "\<forall>t \<in> set (transactions d). 0 < t_amount t \<Longrightarrow>
   \<forall>t \<in> set (transactions (run rs d)). 0 < t_amount t"
proof (induction rs arbitrary: d)
  case Nil
  then show ?case by simp
next
  case (Cons rq rs)
  from Cons.prems have "\<forall>t \<in> set (transactions (serve rq d)). 0 < t_amount t"
    by (rule serve_transactions_positive)
  then show ?case using Cons.IH by simp
qed

section \<open>Lock order\<close>

lemma create_transfer_locked:
  "lookup_account d (source_account_id r) = Some src \<Longrightarrow>
   lookup_account d (destination_account_id r) = Some dst \<Longrightarrow>
   locked (snd (create_transfer r (SessionLocal d))) = [source_account_id r, destination_account_id r]"
  by (simp add: create_transfer_result Let_def)

section \<open>Balances after a write\<close>

lemma balance_after_transfer:
  "balance_of (d\<lparr>transactions := ts, ledger_entries := ledger_entries d @
       [new_entry_row i tid src ''debit'' amt, new_entry_row j tid dst ''credit'' amt]\<rparr>) a =
     balance_of d a - (if a = src then amt else 0) + (if a = dst then amt else 0)"
  by (simp add: balance_of_credit_debit credit_sum_def debit_sum_def new_entry_row_def)

lemma balance_after_deposit:
  "balance_of (d\<lparr>transactions := ts, ledger_entries := ledger_entries d @
       [new_entry_row i tid dst ''credit'' amt]\<rparr>) a =
     balance_of d a + (if a = dst then amt else 0)"
  by (simp add: balance_of_credit_debit credit_sum_def debit_sum_def new_entry_row_def)

lemma balance_after_withdrawal:
  "balance_of (d\<lparr>transactions := ts, ledger_entries := ledger_entries d @
       [new_entry_row i tid src ''debit'' amt]\<rparr>) a =
     balance_of d a - (if a = src then amt else 0)"
  by (simp add: balance_of_credit_debit credit_sum_def debit_sum_def new_entry_row_def)

lemma run_append: "run (rs @ rs') d = run rs' (run rs d)"
  by (induction rs arbitrary: d) simp_all

lemma serve_balance_nonneg:
  assumes inv: "\<forall>a. 0 \<le> balance_of d a"
  shows "0 \<le> balance_of (serve rq d) a"
proof (cases rq)
  case (POST_accounts r)
  then show ?thesis
    using inv by (simp add: post_accounts_def create_account_tables SessionLocal_simps
        balance_of_credit_debit credit_sum_def debit_sum_def)
next
  case (POST_transfers r)
  have "0 \<le> balance_of d a" "0 \<le> balance_of d (source_account_id r)"
    using inv by simp_all
  with POST_transfers show ?thesis
    by (auto simp: post_transfers_def TransferCreate_valid_def create_transfer_result
        SessionLocal_simps balance_after_transfer Let_def split: option.splits)
next
  case (POST_deposits r)
  have "0 \<le> balance_of d a" using inv by simp
  with POST_deposits show ?thesis
    by (auto simp: post_deposits_def TransferCreate_valid_def create_deposit_result
        SessionLocal_simps balance_after_deposit Let_def split: option.splits)
next
  case (POST_withdrawals r)
  have "0 \<le> balance_of d a" using inv by simp
  with POST_withdrawals show ?thesis
    by (auto simp: post_withdrawals_def TransferCreate_valid_def create_withdrawal_result
        SessionLocal_simps balance_after_withdrawal Let_def split: option.splits)
qed

lemma run_balance_nonneg:
  "\<forall>a. 0 \<le> balance_of d a \<Longrightarrow> 0 \<le> balance_of (run rs d) a"
proof (induction rs arbitrary: d)
  case Nil
  then show ?case by simp
next
  case (Cons rq rs)
  have "\<forall>a. 0 \<le> balance_of (serve rq d) a"
    using Cons.prems by (simp add: serve_balance_nonneg)
  then show ?case using Cons.IH by simp
qed

section \<open>Entries of a transaction\<close>


















section \<open>Responses of valid requests\<close>





section \<open>The claims\<close>

text \<open>
  C1. From tables without ledger entries, after every sequence of account, transfer,
  deposit and withdrawal requests every account has a balance of at least zero. A valid
  transfer between existing accounts of the requested currency, and a valid withdrawal
  from an existing account, whose amount exceeds the balance of the source, is answered
  403 and changes nothing.
\<close>

theorem balance_never_negative:
  "(ledger_entries d0 = [] \<longrightarrow> 0 \<le> balance_of (run rs d0) a)
   \<and> (TransferCreate_valid r \<and> lookup_account d (source_account_id r) = Some src
        \<and> lookup_account d (destination_account_id r) = Some dst
        \<and> a_currency src = currency r \<and> a_currency dst = currency r
        \<and> balance_of d (source_account_id r) < amount r \<longrightarrow>
          fst (post_transfers r d) = Inl HTTP_403_FORBIDDEN
          \<and> tables (snd (post_transfers r d)) = d)
   \<and> (TransferCreate_valid r \<and> lookup_account d (source_account_id r) = Some src
        \<and> balance_of d (source_account_id r) < amount r \<longrightarrow>
          fst (post_withdrawals r d) = Inl HTTP_403_FORBIDDEN
          \<and> tables (snd (post_withdrawals r d)) = d)"
proof (intro conjI impI)
  assume "ledger_entries d0 = []"
  then have "\<forall>a. 0 \<le> balance_of d0 a"
    by (simp add: balance_of_credit_debit credit_sum_def debit_sum_def)
  then show "0 \<le> balance_of (run rs d0) a"
    by (rule run_balance_nonneg)
qed (simp_all add: post_transfers_def post_withdrawals_def create_transfer_result
    create_withdrawal_result Let_def)

text \<open>
  From the empty database: after the five requests of the example and a withdrawal of
  all 60 of account 1, the balance of account 1 is 0; a further transfer of 1 from it
  is answered 403.
\<close>

theorem balance_never_negative_witness:
  "ledger_entries empty_database = []
   \<and> 0 \<le> balance_of (run [POST_withdrawals (example_request 1 0 60 ''USD'')] example_ledger) 1
   \<and> fst (post_transfers (example_request 2 1 41 ''USD'') example_ledger) = Inl HTTP_403_FORBIDDEN
   \<and> fst (post_withdrawals (example_request 2 1 41 ''USD'') example_ledger) = Inl HTTP_403_FORBIDDEN"
  using balance_never_negative [of empty_database
      "[POST_accounts (example_account ''U1'' ''checking'' ''USD''),
        POST_accounts (example_account ''U2'' ''checking'' ''USD''),
        POST_accounts (example_account ''U3'' ''savings'' ''EUR''),
        POST_deposits (example_request 0 1 100 ''USD''),
        POST_transfers (example_request 1 2 40 ''USD'')] @
       [POST_withdrawals (example_request 1 0 60 ''USD'')]" 1
      "example_request 2 1 41 ''USD''" example_ledger
      "\<lparr>a_id = 2, a_user_id = ''U2'', a_account_type = ''checking'', a_currency = ''USD'',
           a_status = ''active''\<rparr>"
      "\<lparr>a_id = 1, a_user_id = ''U1'', a_account_type = ''checking'', a_currency = ''USD'',
           a_status = ''active''\<rparr>"]
    example_ledger_reachable
  by (simp add: run_append empty_database_def example_ledger_lookup example_ledger_balance
      TransferCreate_valid_def example_request_def)

text \<open>
  C2. For every account and every state of the ledger, the balance that
  \<open>calculate_account_balance\<close> returns is the sum of the amounts of the credit entries that
  reference the account minus the sum of the amounts of its debit entries; this holds
  in particular in the state after any sequence of requests. The function returns the
  balance only: the session is not among its results, as the source reads and never adds,
  flushes or commits.
\<close>

theorem balance_is_credits_minus_debits:
  "calculate_account_balance db account_id =
     credit_sum (tables db) account_id - debit_sum (tables db) account_id
   \<and> balance_of (run rs d) account_id =
       credit_sum (run rs d) account_id - debit_sum (run rs d) account_id"
  by (simp add: balance_credit_debit balance_of_credit_debit)

text \<open>On the example ledger, account 1 has credits of 100 and debits of 40.\<close>

theorem balance_is_credits_minus_debits_witness:
  "calculate_account_balance (SessionLocal example_ledger) 1 = 100 - 40"
  using balance_is_credits_minus_debits [of "SessionLocal example_ledger" 1 "[]" example_ledger]
  by (simp add: credit_sum_def debit_sum_def example_ledger_def SessionLocal_simps)



text \<open>
  C4. A transfer, deposit or withdrawal that fails, with whatever status (404, 400, 403,
  500 from the handler, 422 from validation), leaves the tables exactly as they were
  before the request, with nothing pending: no transaction row and no ledger entry of the
  attempt remains, and every balance is what it was.
\<close>

theorem failed_operation_leaves_ledger_unchanged:
  "(fst (create_transfer r (SessionLocal d)) = Inl e \<longrightarrow>
      tables (snd (create_transfer r (SessionLocal d))) = d
      \<and> pending (snd (create_transfer r (SessionLocal d))) = [])
   \<and> (fst (create_deposit r (SessionLocal d)) = Inl e \<longrightarrow>
      tables (snd (create_deposit r (SessionLocal d))) = d
      \<and> pending (snd (create_deposit r (SessionLocal d))) = [])
   \<and> (fst (create_withdrawal r (SessionLocal d)) = Inl e \<longrightarrow>
      tables (snd (create_withdrawal r (SessionLocal d))) = d
      \<and> pending (snd (create_withdrawal r (SessionLocal d))) = [])
   \<and> (fst (post_transfers r d) = Inl e \<longrightarrow>
      tables (snd (post_transfers r d)) = d
      \<and> balance_of (tables (snd (post_transfers r d))) a = balance_of d a)
   \<and> (fst (post_deposits r d) = Inl e \<longrightarrow>
      tables (snd (post_deposits r d)) = d
      \<and> balance_of (tables (snd (post_deposits r d))) a = balance_of d a)
   \<and> (fst (post_withdrawals r d) = Inl e \<longrightarrow>
      tables (snd (post_withdrawals r d)) = d
      \<and> balance_of (tables (snd (post_withdrawals r d))) a = balance_of d a)"
  using create_transfer_failure [of r d e] create_deposit_failure [of r d e]
    create_withdrawal_failure [of r d e]
  by (simp add: post_transfers_def post_deposits_def post_withdrawals_def SessionLocal_simps)

text \<open>
  A withdrawal of 1000 from account 1 (balance 60) is refused with 403. A transfer of
  amount 0 handed to the handler gets as far as the inserted transaction row, fails the
  check constraint of the ledger entry at the flush, and is rolled back to the same tables.
\<close>

theorem failed_operation_leaves_ledger_unchanged_witness:
  "fst (post_withdrawals (example_request 1 0 1000 ''USD'') example_ledger) = Inl HTTP_403_FORBIDDEN
   \<and> tables (snd (post_withdrawals (example_request 1 0 1000 ''USD'') example_ledger)) = example_ledger
   \<and> fst (create_transfer (example_request 1 2 0 ''USD'') (SessionLocal example_ledger))
       = Inl HTTP_500_INTERNAL_SERVER_ERROR
   \<and> length (transactions (tables (snd
         (create_transfer_body (example_request 1 2 0 ''USD'') (SessionLocal example_ledger))))) = 3
   \<and> tables (snd (create_transfer (example_request 1 2 0 ''USD'') (SessionLocal example_ledger)))
       = example_ledger"
proof -
  have w: "fst (post_withdrawals (example_request 1 0 1000 ''USD'') example_ledger) = Inl HTTP_403_FORBIDDEN"
    by (simp add: post_withdrawals_def TransferCreate_valid_def create_withdrawal_result
        example_ledger_lookup example_ledger_balance example_request_def Let_def)
  have t: "fst (create_transfer (example_request 1 2 0 ''USD'') (SessionLocal example_ledger))
       = Inl HTTP_500_INTERNAL_SERVER_ERROR"
    by (simp add: create_transfer_result example_ledger_lookup example_ledger_balance
        example_request_def Let_def)
  have b: "length (transactions (tables (snd
         (create_transfer_body (example_request 1 2 0 ''USD'') (SessionLocal example_ledger))))) = 3"
    by (simp add: create_transfer_body_def query_account_for_update_def example_request_def
        SessionLocal_def calculate_account_balance_def add_flush_transaction_def add_all_def
        example_ledger_def Let_def)
  from w t b
    failed_operation_leaves_ledger_unchanged
      [of "example_request 1 0 1000 ''USD''" example_ledger HTTP_403_FORBIDDEN]
    failed_operation_leaves_ledger_unchanged
      [of "example_request 1 2 0 ''USD''" example_ledger HTTP_500_INTERNAL_SERVER_ERROR]
  show ?thesis by simp
qed





text \<open>
  C7, as the code has it. A transfer whose two accounts exist locks the source account
  first and the destination account second, in the order of the two queries of the
  handler; the order of acquisition is ascending exactly when the source identifier is
  not larger than the destination identifier.
\<close>

theorem transfer_locks_source_then_destination:
  "lookup_account d (source_account_id r) = Some src \<and>
   lookup_account d (destination_account_id r) = Some dst \<longrightarrow>
     locked (snd (create_transfer r (SessionLocal d))) =
       [source_account_id r, destination_account_id r]
     \<and> (sorted (locked (snd (create_transfer r (SessionLocal d))))
          \<longleftrightarrow> source_account_id r \<le> destination_account_id r)"
  by (simp add: create_transfer_locked)

text \<open>A transfer from account 1 to account 2 of the example ledger locks 1, then 2.\<close>

theorem transfer_locks_source_then_destination_witness:
  "locked (snd (create_transfer (example_request 1 2 10 ''USD'') (SessionLocal example_ledger))) = [1, 2]
   \<and> sorted (locked (snd (create_transfer (example_request 1 2 10 ''USD'') (SessionLocal example_ledger))))"
  using transfer_locks_source_then_destination [of example_ledger "example_request 1 2 10 ''USD''"]
  by (simp add: example_ledger_lookup example_request_def)

text \<open>
  C7, as stated, fails: a transfer of 10 from account 2 to account 1 on the example
  ledger succeeds and locks account 2 before account 1.
\<close>

theorem transfer_locks_ascending_counterexample:
  "locked (snd (post_transfers (example_request 2 1 10 ''USD'') example_ledger)) = [2, 1]
   \<and> \<not> sorted (locked (snd (post_transfers (example_request 2 1 10 ''USD'') example_ledger)))
   \<and> fst (post_transfers (example_request 2 1 10 ''USD'') example_ledger) =
       Inr \<lparr>t_id = 3, t_type = ''transfer'', t_status = ''completed'', t_amount = 10,
            t_currency = ''USD'', t_description = None\<rparr>"
  by (simp add: post_transfers_def TransferCreate_valid_def create_transfer_result
      example_ledger_lookup example_ledger_balance example_request_def Let_def
      new_transaction_row_def next_id_def)
    (simp add: example_ledger_def)

text \<open>
  C8. A transfer, deposit or withdrawal request whose amount is zero or negative is
  answered 422 by the validation of the schema, before the handler runs: the session is
  as it was made, with no row lock taken, nothing pending and the tables untouched, and
  the answer is the same on every ledger, so no balance was read. No transaction row with
  a non-positive amount is in the tables after any sequence of requests on the empty
  database.
\<close>

theorem nonpositive_amount_is_rejected_first:
  "(amount r \<le> 0 \<longrightarrow>
      post_transfers r d = (Inl HTTP_422_UNPROCESSABLE_ENTITY, \<lparr>tables = d, pending = [], locked = []\<rparr>)
      \<and> post_deposits r d = (Inl HTTP_422_UNPROCESSABLE_ENTITY, \<lparr>tables = d, pending = [], locked = []\<rparr>)
      \<and> post_withdrawals r d = (Inl HTTP_422_UNPROCESSABLE_ENTITY, \<lparr>tables = d, pending = [], locked = []\<rparr>))
   \<and> (\<forall>t \<in> set (transactions (run rs empty_database)). 0 < t_amount t)"
proof -
  have "\<forall>t \<in> set (transactions (run rs empty_database)). 0 < t_amount t"
    by (rule run_transactions_positive) (simp add: empty_database_def)
  then show ?thesis
    by (simp add: post_transfers_def post_deposits_def post_withdrawals_def
        TransferCreate_valid_def SessionLocal_def)
qed

text \<open>Amounts 0 and -5 on the example ledger, which five requests reach.\<close>

theorem nonpositive_amount_is_rejected_first_witness:
  "post_transfers (example_request 1 2 0 ''USD'') example_ledger =
     (Inl HTTP_422_UNPROCESSABLE_ENTITY, \<lparr>tables = example_ledger, pending = [], locked = []\<rparr>)
   \<and> post_withdrawals (example_request 1 2 (- 5) ''USD'') example_ledger =
     (Inl HTTP_422_UNPROCESSABLE_ENTITY, \<lparr>tables = example_ledger, pending = [], locked = []\<rparr>)
   \<and> list_all (\<lambda>t. 0 < t_amount t) (transactions example_ledger)"
  using nonpositive_amount_is_rejected_first [of "example_request 1 2 0 ''USD''" example_ledger
      "[POST_accounts (example_account ''U1'' ''checking'' ''USD''),
        POST_accounts (example_account ''U2'' ''checking'' ''USD''),
        POST_accounts (example_account ''U3'' ''savings'' ''EUR''),
        POST_deposits (example_request 0 1 100 ''USD''),
        POST_transfers (example_request 1 2 40 ''USD'')]"]
    nonpositive_amount_is_rejected_first [of "example_request 1 2 (- 5) ''USD''" example_ledger "[]"]
  unfolding example_ledger_reachable
  by (simp add: example_request_def list_all_iff)



text \<open>
  C10. Two deposit requests that agree on every field but \<open>source_account_id\<close> have the
  same response and leave the same state, on every ledger; likewise two withdrawal
  requests that agree on every field but \<open>destination_account_id\<close>.
\<close>

theorem unused_account_field_is_ignored:
  "(destination_account_id r = destination_account_id r' \<and> amount r = amount r'
      \<and> currency r = currency r' \<and> description r = description r'
      \<longrightarrow> post_deposits r d = post_deposits r' d)
   \<and> (source_account_id r = source_account_id r' \<and> amount r = amount r'
      \<and> currency r = currency r' \<and> description r = description r'
      \<longrightarrow> post_withdrawals r d = post_withdrawals r' d)"
proof (intro conjI impI)
  assume "destination_account_id r = destination_account_id r' \<and> amount r = amount r'
      \<and> currency r = currency r' \<and> description r = description r'"
  then have "create_deposit_body r = create_deposit_body r'"
    and "TransferCreate_valid r = TransferCreate_valid r'"
    by (auto simp: create_deposit_body_def TransferCreate_valid_def fun_eq_iff Let_def
        split: prod.splits option.splits)
  then show "post_deposits r d = post_deposits r' d"
    by (simp add: post_deposits_def create_deposit_def)
next
  assume "source_account_id r = source_account_id r' \<and> amount r = amount r'
      \<and> currency r = currency r' \<and> description r = description r'"
  then have "create_withdrawal_body r = create_withdrawal_body r'"
    and "TransferCreate_valid r = TransferCreate_valid r'"
    by (auto simp: create_withdrawal_body_def TransferCreate_valid_def fun_eq_iff Let_def
        split: prod.splits option.splits)
  then show "post_withdrawals r d = post_withdrawals r' d"
    by (simp add: post_withdrawals_def create_withdrawal_def)
qed

text \<open>Account 77 does not exist in the example ledger; the requests are served alike.\<close>

theorem unused_account_field_is_ignored_witness:
  "post_deposits (example_request 1 2 10 ''USD'') example_ledger =
     post_deposits (example_request 77 2 10 ''USD'') example_ledger
   \<and> post_withdrawals (example_request 1 2 10 ''USD'') example_ledger =
     post_withdrawals (example_request 1 77 10 ''USD'') example_ledger"
  using unused_account_field_is_ignored [of "example_request 1 2 10 ''USD''"
      "example_request 77 2 10 ''USD''" example_ledger]
    unused_account_field_is_ignored [of "example_request 1 2 10 ''USD''"
      "example_request 1 77 10 ''USD''" example_ledger]
  by (simp add: example_request_def)

end
